theory Spec2Isabelle
  imports Complex_Main "HOL-Library.Sublist"
begin

section \<open>Python values as the proxy sees them\<close>

text \<open>
  A Python \<^verbatim>\<open>str\<close> is a sequence of Unicode code points; a code point is a natural
  number. \<open>ascii\<close> writes a literal.
\<close>

type_synonym pystr = "nat list"

definition ascii :: "string \<Rightarrow> pystr" where
  "ascii s = map of_char s"

text \<open>
  The value \<^verbatim>\<open>json.loads\<close> returns: None, a bool, an int, a float, a str, a list or a
  dict with str keys. A dict keeps its insertion order, so it is an association list
  (the keys of a parsed object are distinct). A float is held by its value and its
  \<^verbatim>\<open>repr\<close>; the code never computes with one. The non-standard constants NaN and
  Infinity are not represented.
\<close>

datatype json =
    JNull
  | JBool bool
  | JInt int
  | JFloat rat pystr
  | JStr pystr
  | JList "json list"
  | JDict "(pystr \<times> json) list"

datatype error =
    AttributeError | TypeError | KeyError | IndexError | StopIteration
  | OSError | JSONDecodeError | UnicodeError

text \<open>Sequencing of steps that may raise: the first exception ends the computation.\<close>

definition andthen :: "error + 'a \<Rightarrow> ('a \<Rightarrow> error + 'b) \<Rightarrow> error + 'b" where
  "andthen r f = (case r of Inl e \<Rightarrow> Inl e | Inr v \<Rightarrow> f v)"

subsection \<open>Strings\<close>

text \<open>
  \<^verbatim>\<open>str.strip()\<close> removes the code points for which \<^verbatim>\<open>str.isspace\<close> holds from both
  ends.
\<close>

definition isspace :: "nat \<Rightarrow> bool" where
  "isspace c \<longleftrightarrow>
     (9 \<le> c \<and> c \<le> 13) \<or> (28 \<le> c \<and> c \<le> 32) \<or> c = 133 \<or> c = 160 \<or> c = 5760 \<or>
     (8192 \<le> c \<and> c \<le> 8202) \<or> c = 8232 \<or> c = 8233 \<or> c = 8239 \<or> c = 8287 \<or>
     c = 12288"

definition strip :: "pystr \<Rightarrow> pystr" where
  "strip s = rev (dropWhile isspace (rev (dropWhile isspace s)))"

text \<open>\<^verbatim>\<open>sep.join(parts)\<close>\<close>

fun join :: "pystr \<Rightarrow> pystr list \<Rightarrow> pystr" where
  "join sep [] = []"
| "join sep [p] = p"
| "join sep (p # q # ps) = p @ sep @ join sep (q # ps)"

subsection \<open>Dicts\<close>

text \<open>\<^verbatim>\<open>d.get(k, default)\<close>, \<^verbatim>\<open>k in d\<close>, \<^verbatim>\<open>d[k] = v\<close> and \<^verbatim>\<open>d.setdefault(k, v)\<close>.\<close>

definition dict_get :: "(pystr \<times> json) list \<Rightarrow> pystr \<Rightarrow> json \<Rightarrow> json" where
  "dict_get d k dflt = (case map_of d k of None \<Rightarrow> dflt | Some v \<Rightarrow> v)"

definition dict_has :: "(pystr \<times> json) list \<Rightarrow> pystr \<Rightarrow> bool" where
  "dict_has d k \<longleftrightarrow> map_of d k \<noteq> None"

fun dict_set :: "(pystr \<times> json) list \<Rightarrow> pystr \<Rightarrow> json \<Rightarrow> (pystr \<times> json) list" where
  "dict_set [] k v = [(k, v)]"
| "dict_set ((k', v') # d) k v = (if k' = k then (k, v) # d else (k', v') # dict_set d k v)"

definition setdefault :: "(pystr \<times> json) list \<Rightarrow> pystr \<Rightarrow> json \<Rightarrow> (pystr \<times> json) list" where
  "setdefault d k v = (if dict_has d k then d else dict_set d k v)"

text \<open>\<^verbatim>\<open>x.get(k, default)\<close> on any value: only a dict has the method.\<close>

definition py_get :: "json \<Rightarrow> pystr \<Rightarrow> json \<Rightarrow> error + json" where
  "py_get x k dflt = (case x of JDict d \<Rightarrow> Inr (dict_get d k dflt) | _ \<Rightarrow> Inl AttributeError)"

text \<open>\<^verbatim>\<open>x[k]\<close> with a str key: a missing key of a dict raises KeyError, any other value
  does not take a str subscript.\<close>

definition py_item :: "json \<Rightarrow> pystr \<Rightarrow> error + json" where
  "py_item x k =
     (case x of
        JDict d \<Rightarrow> (case map_of d k of None \<Rightarrow> Inl KeyError | Some v \<Rightarrow> Inr v)
      | _ \<Rightarrow> Inl TypeError)"

text \<open>\<^verbatim>\<open>x[0]\<close>: the first element of a list, the first character of a str; a dict is
  looked up at the key 0, which a parsed object (str keys) never has.\<close>

definition py_first :: "json \<Rightarrow> error + json" where
  "py_first x =
     (case x of
        JList [] \<Rightarrow> Inl IndexError
      | JList (b # bs) \<Rightarrow> Inr b
      | JStr [] \<Rightarrow> Inl IndexError
      | JStr (c # cs) \<Rightarrow> Inr (JStr [c])
      | JDict d \<Rightarrow> Inl KeyError
      | _ \<Rightarrow> Inl TypeError)"

text \<open>\<^verbatim>\<open>for x in v\<close>: the elements of a list, the characters of a str, the keys of a
  dict; nothing else is iterable.\<close>

definition py_iter :: "json \<Rightarrow> error + json list" where
  "py_iter v =
     (case v of
        JList xs \<Rightarrow> Inr xs
      | JStr s \<Rightarrow> Inr (map (\<lambda>c. JStr [c]) s)
      | JDict d \<Rightarrow> Inr (map (\<lambda>p. JStr (fst p)) d)
      | _ \<Rightarrow> Inl TypeError)"

text \<open>Truth value of a value in a condition.\<close>

definition truthy :: "json \<Rightarrow> bool" where
  "truthy v =
     (case v of
        JNull \<Rightarrow> False
      | JBool b \<Rightarrow> b
      | JInt i \<Rightarrow> i \<noteq> 0
      | JFloat q r \<Rightarrow> q \<noteq> 0
      | JStr s \<Rightarrow> s \<noteq> []
      | JList xs \<Rightarrow> xs \<noteq> []
      | JDict d \<Rightarrow> d \<noteq> [])"

text \<open>
  \<^verbatim>\<open>a == b\<close>: numbers (bools among them) compare by value, strings and lists
  elementwise, dicts as maps; values of different kinds are unequal.
\<close>

definition num_val :: "json \<Rightarrow> rat option" where
  "num_val v =
     (case v of
        JBool b \<Rightarrow> Some (if b then 1 else 0)
      | JInt i \<Rightarrow> Some (of_int i)
      | JFloat q r \<Rightarrow> Some q
      | _ \<Rightarrow> None)"

fun py_eq :: "json \<Rightarrow> json \<Rightarrow> bool" where
  "py_eq (JStr s) (JStr t) = (s = t)"
| "py_eq (JList xs) (JList ys) = list_all2 py_eq xs ys"
| "py_eq (JDict ps) (JDict qs) =
     (length ps = length qs \<and>
      list_all (\<lambda>p. case map_of qs (fst p) of None \<Rightarrow> False | Some w \<Rightarrow> py_eq (snd p) w) ps)"
| "py_eq JNull JNull = True"
| "py_eq a b = (case (num_val a, num_val b) of (Some x, Some y) \<Rightarrow> x = y | _ \<Rightarrow> False)"

text \<open>\<^verbatim>\<open>x[k] = v\<close> with a str key.\<close>

definition py_setitem :: "json \<Rightarrow> pystr \<Rightarrow> json \<Rightarrow> error + json" where
  "py_setitem x k v = (case x of JDict d \<Rightarrow> Inr (JDict (dict_set d k v)) | _ \<Rightarrow> Inl TypeError)"

text \<open>
  \<^verbatim>\<open>f"{v}"\<close>: a str is inserted as it is. For any other value Python inserts
  \<^verbatim>\<open>str(v)\<close>, which the functions below take as the parameter \<open>fmt\<close>.
\<close>

definition py_format :: "(json \<Rightarrow> pystr) \<Rightarrow> json \<Rightarrow> pystr" where
  "py_format fmt v = (case v of JStr s \<Rightarrow> s | _ \<Rightarrow> fmt v)"

section \<open>The system prompt\<close>

definition ephemeral :: json where
  "ephemeral = JDict [(ascii ''type'', JStr (ascii ''ephemeral''))]"

definition text_block :: "pystr \<Rightarrow> json" where
  "text_block t =
     JDict [(ascii ''type'', JStr (ascii ''text'')), (ascii ''text'', JStr t),
            (ascii ''cache_control'', ephemeral)]"

definition FIXED_SYSTEM :: json where
  "FIXED_SYSTEM =
     JList [text_block (ascii ''You are Claude Code, Anthropic's official CLI for Claude.''),
            text_block (ascii ''.'')]"

text \<open>The loop of \<^verbatim>\<open>get_user_system_text\<close> over a list: \<open>parts\<close> is its accumulator.\<close>

fun system_parts :: "pystr list \<Rightarrow> json list \<Rightarrow> error + pystr list" where
  "system_parts parts [] = Inr parts"
| "system_parts parts (item # items) =
     (case item of
        JDict d \<Rightarrow>
          (case dict_get d (ascii ''text'') (JStr []) of
             JStr t \<Rightarrow> system_parts (if strip t \<noteq> [] then parts @ [strip t] else parts) items
           | _ \<Rightarrow> Inl AttributeError)
      | _ \<Rightarrow> system_parts parts items)"

definition get_user_system_text :: "json \<Rightarrow> error + pystr" where
  "get_user_system_text original_system =
     (case original_system of
        JStr s \<Rightarrow> Inr (if strip s \<noteq> [] then strip s else [])
      | JList items \<Rightarrow>
          andthen (system_parts [] items)
            (\<lambda>parts. Inr (if parts \<noteq> [] then join [10, 10] parts else []))
      | _ \<Rightarrow> Inr [])"

section \<open>The request body\<close>

definition wrapper :: "pystr \<Rightarrow> pystr" where
  "wrapper user_system =
     ascii ''[System Instructions]'' @ [10] @ user_system @ [10] @
     ascii ''[/System Instructions]'' @ [10, 10]"

text \<open>What the first loop does to the first user message, before it breaks.\<close>

definition inject_msg :: "pystr \<Rightarrow> json \<Rightarrow> error + json" where
  "inject_msg user_system msg =
     andthen (py_get msg (ascii ''content'') (JStr []))
       (\<lambda>content.
          case content of
            JStr c \<Rightarrow> py_setitem msg (ascii ''content'') (JStr (wrapper user_system @ c))
          | JList (b # bs) \<Rightarrow>
              andthen (py_get b (ascii ''text'') (JStr []))
                (\<lambda>t. case t of
                       JStr s \<Rightarrow>
                         andthen (py_setitem b (ascii ''text'') (JStr (wrapper user_system @ s)))
                           (\<lambda>b'. py_setitem msg (ascii ''content'') (JList (b' # bs)))
                     | _ \<Rightarrow> Inl TypeError)
          | _ \<Rightarrow> Inr msg)"

fun inject :: "pystr \<Rightarrow> json list \<Rightarrow> error + json list" where
  "inject user_system [] = Inr []"
| "inject user_system (msg # msgs) =
     andthen (py_get msg (ascii ''role'') JNull)
       (\<lambda>r. if py_eq r (JStr (ascii ''user''))
            then andthen (inject_msg user_system msg) (\<lambda>msg'. Inr (msg' # msgs))
            else andthen (inject user_system msgs) (\<lambda>msgs'. Inr (msg # msgs')))"

text \<open>
  The first loop on the body: the messages are changed in place, so a list under
  \<^verbatim>\<open>"messages"\<close> holds the changed messages afterwards; the default list of an absent
  key is not stored.
\<close>

definition inject_body :: "pystr \<Rightarrow> json \<Rightarrow> error + json" where
  "inject_body user_system body =
     andthen (py_get body (ascii ''messages'') (JList []))
       (\<lambda>messages.
          andthen (py_iter messages)
            (\<lambda>msgs.
               andthen (inject user_system msgs)
                 (\<lambda>msgs'. case messages of
                            JList ms \<Rightarrow>
                              (if msgs = [] then Inr body
                               else py_setitem body (ascii ''messages'') (JList msgs'))
                          | _ \<Rightarrow> Inr body)))"

text \<open>\<^verbatim>\<open>any(isinstance(b, dict) and b.get("text", "").strip() for b in c)\<close>\<close>

fun any_text :: "json list \<Rightarrow> error + bool" where
  "any_text [] = Inr False"
| "any_text (b # bs) =
     (case b of
        JDict d \<Rightarrow>
          (case dict_get d (ascii ''text'') (JStr []) of
             JStr t \<Rightarrow> if strip t \<noteq> [] then Inr True else any_text bs
           | _ \<Rightarrow> Inl AttributeError)
      | _ \<Rightarrow> any_text bs)"

text \<open>Whether the second loop skips the message (\<^verbatim>\<open>continue\<close>).\<close>

definition blank_assistant :: "json \<Rightarrow> error + bool" where
  "blank_assistant msg =
     andthen (py_get msg (ascii ''role'') JNull)
       (\<lambda>r. if py_eq r (JStr (ascii ''assistant''))
            then andthen (py_get msg (ascii ''content'') (JStr []))
                   (\<lambda>c. case c of
                          JStr s \<Rightarrow> Inr (strip s = [])
                        | JList bs \<Rightarrow> andthen (any_text bs) (\<lambda>a. Inr (\<not> a))
                        | _ \<Rightarrow> Inr False)
            else Inr False)"

text \<open>\<^verbatim>\<open>m["content"] if isinstance(m["content"], str) else m["content"][0].get("text", "")\<close>\<close>

definition turn_text :: "json \<Rightarrow> error + json" where
  "turn_text m =
     andthen (py_item m (ascii ''content''))
       (\<lambda>c. case c of
              JStr s \<Rightarrow> Inr (JStr s)
            | _ \<Rightarrow> andthen (py_first c) (\<lambda>b. py_get b (ascii ''text'') (JStr [])))"

text \<open>One round of the second loop: \<open>cleaned\<close> before the message, and after it.\<close>

definition clean_step :: "(json \<Rightarrow> pystr) \<Rightarrow> json list \<Rightarrow> json \<Rightarrow> error + json list" where
  "clean_step fmt cleaned msg =
     andthen (blank_assistant msg)
       (\<lambda>blank.
          if blank then Inr cleaned
          else if cleaned = [] then Inr (cleaned @ [msg])
          else
            andthen (py_item (last cleaned) (ascii ''role''))
              (\<lambda>r1. andthen (py_item msg (ascii ''role''))
                 (\<lambda>r2.
                    if py_eq r1 r2 then
                      andthen (turn_text (last cleaned))
                        (\<lambda>pt. andthen (turn_text msg)
                           (\<lambda>ct. andthen
                              (py_setitem (last cleaned) (ascii ''content'')
                                 (JList [text_block (py_format fmt pt @ [10] @ py_format fmt ct)]))
                              (\<lambda>prev. Inr (butlast cleaned @ [prev]))))
                    else Inr (cleaned @ [msg]))))"

fun clean_loop :: "(json \<Rightarrow> pystr) \<Rightarrow> json list \<Rightarrow> json list \<Rightarrow> error + json list" where
  "clean_loop fmt cleaned [] = Inr cleaned"
| "clean_loop fmt cleaned (msg # msgs) =
     andthen (clean_step fmt cleaned msg) (\<lambda>cleaned'. clean_loop fmt cleaned' msgs)"

text \<open>The third loop: every message of the cleaned list gets its blocks annotated.\<close>

definition annotate_block :: "json \<Rightarrow> json" where
  "annotate_block block =
     (case block of
        JDict b \<Rightarrow>
          if dict_has b (ascii ''cache_control'') then block
          else JDict (dict_set b (ascii ''cache_control'') ephemeral)
      | _ \<Rightarrow> block)"

definition annotate_msg :: "json \<Rightarrow> error + json" where
  "annotate_msg msg =
     andthen (py_get msg (ascii ''content'') (JStr []))
       (\<lambda>c. case c of
              JStr s \<Rightarrow> py_setitem msg (ascii ''content'') (JList [text_block s])
            | JList bs \<Rightarrow> py_setitem msg (ascii ''content'') (JList (map annotate_block bs))
            | _ \<Rightarrow> Inr msg)"

fun annotate :: "json list \<Rightarrow> error + json list" where
  "annotate [] = Inr []"
| "annotate (msg # msgs) =
     andthen (annotate_msg msg) (\<lambda>msg'. andthen (annotate msgs) (\<lambda>msgs'. Inr (msg' # msgs')))"

definition py_setdefault :: "json \<Rightarrow> pystr \<Rightarrow> json \<Rightarrow> error + json" where
  "py_setdefault x k v = (case x of JDict d \<Rightarrow> Inr (JDict (setdefault d k v)) | _ \<Rightarrow> Inl AttributeError)"

definition transform_body :: "(json \<Rightarrow> pystr) \<Rightarrow> json \<Rightarrow> error + json" where
  "transform_body fmt body =
     andthen (py_get body (ascii ''system'') JNull) (\<lambda>original_system.
     andthen (get_user_system_text original_system) (\<lambda>user_system.
     andthen (py_setitem body (ascii ''system'') FIXED_SYSTEM) (\<lambda>body1.
     andthen (if user_system \<noteq> [] then inject_body user_system body1 else Inr body1) (\<lambda>body2.
     andthen (py_get body2 (ascii ''messages'') (JList [])) (\<lambda>messages.
     andthen (py_iter messages) (\<lambda>msgs.
     andthen (clean_loop fmt [] msgs) (\<lambda>cleaned.
     andthen (py_setitem body2 (ascii ''messages'') (JList cleaned)) (\<lambda>body3.
     andthen (annotate cleaned) (\<lambda>annotated.
     andthen (py_setitem body3 (ascii ''messages'') (JList annotated)) (\<lambda>body4.
     andthen (py_setdefault body4 (ascii ''max_tokens'') (JInt 32000)) (\<lambda>body5.
     andthen (py_setdefault body5 (ascii ''temperature'') (JInt 1)) (\<lambda>body6.
     py_setdefault body6 (ascii ''stream'') (JBool True)))))))))))))"

section \<open>The key rotation\<close>

text \<open>
  \<^verbatim>\<open>itertools.cycle\<close>: on its first pass it takes the elements from the iterator over
  its argument and saves each; afterwards it walks the saved list with an index that
  wraps.
\<close>

record cycle =
  pending :: "json list"
  saved :: "json list"
  index :: nat

definition new_cycle :: "json \<Rightarrow> error + cycle" where
  "new_cycle v = andthen (py_iter v) (\<lambda>xs. Inr \<lparr>pending = xs, saved = [], index = 0\<rparr>)"

definition cycle_next :: "cycle \<Rightarrow> error + json \<times> cycle" where
  "cycle_next c =
     (case pending c of
        x # xs \<Rightarrow> Inr (x, c\<lparr>pending := xs, saved := saved c @ [x]\<rparr>)
      | [] \<Rightarrow>
          if saved c = [] then Inl StopIteration
          else Inr (saved c ! index c,
                    c\<lparr>index := (if length (saved c) \<le> index c + 1 then 0 else index c + 1)\<rparr>))"

text \<open>The module's globals; \<open>log_debug\<close> is the logger's level (DEBUG or INFO).\<close>

record state =
  config :: json
  DEBUG :: json
  ANYROUTER_URL :: json
  FIXED_UA :: json
  API_KEYS :: json
  key_cycle :: "cycle option"
  log_debug :: bool

definition get_next_key :: "state \<Rightarrow> error + json \<times> state" where
  "get_next_key st =
     (case key_cycle st of
        Some c \<Rightarrow> andthen (cycle_next c) (\<lambda>(k, c'). Inr (k, st\<lparr>key_cycle := Some c'\<rparr>))
      | None \<Rightarrow> Inr (JStr [], st))"

text \<open>\<open>n\<close> calls of \<^verbatim>\<open>get_next_key\<close> in a row: the keys they return, in order.\<close>

fun next_keys :: "nat \<Rightarrow> state \<Rightarrow> error + json list \<times> state" where
  "next_keys 0 st = Inr ([], st)"
| "next_keys (Suc n) st =
     andthen (get_next_key st)
       (\<lambda>(k, st'). andthen (next_keys n st') (\<lambda>(ks, st''). Inr (k # ks, st'')))"

text \<open>\<^verbatim>\<open>itertools.cycle(API_KEYS) if API_KEYS else None\<close>\<close>

definition make_key_cycle :: "json \<Rightarrow> error + cycle option" where
  "make_key_cycle keys =
     (if truthy keys then andthen (new_cycle keys) (\<lambda>c. Inr (Some c)) else Inr None)"

text \<open>The module's initialisation, from the configuration \<^verbatim>\<open>load_config()\<close> returned.\<close>

definition startup :: "json \<Rightarrow> error + state" where
  "startup cfg =
     andthen (py_get cfg (ascii ''debug'') (JBool False)) (\<lambda>debug.
     andthen (py_get cfg (ascii ''anyrouter_url'') (JStr [])) (\<lambda>url.
     andthen (py_get cfg (ascii ''user_agent'') (JStr [])) (\<lambda>ua.
     andthen (py_get cfg (ascii ''api_keys'') (JList [])) (\<lambda>keys.
     andthen (make_key_cycle keys) (\<lambda>kc.
       Inr \<lparr>config = cfg, DEBUG = debug, ANYROUTER_URL = url, FIXED_UA = ua,
            API_KEYS = keys, key_cycle = kc, log_debug = truthy debug\<rparr>)))))"

text \<open>\<^verbatim>\<open>len(x)\<close>\<close>

definition py_len :: "json \<Rightarrow> error + nat" where
  "py_len x =
     (case x of
        JStr s \<Rightarrow> Inr (length s)
      | JList xs \<Rightarrow> Inr (length xs)
      | JDict d \<Rightarrow> Inr (length d)
      | _ \<Rightarrow> Inl TypeError)"

text \<open>
  The answer of \<^verbatim>\<open>/reload\<close>: status 200 with \<^verbatim>\<open>{"status": "ok", "keys_count": n}\<close>, or
  status 500 with \<^verbatim>\<open>{"status": "error", "message": str(e)}\<close> for the exception caught.
\<close>

datatype reload_response = ReloadOk nat | ReloadError error

text \<open>
  \<^verbatim>\<open>reload_config\<close>: \<open>loaded\<close> is what \<^verbatim>\<open>load_config()\<close> does at this call (the file's
  parsed content, or the exception it raises). The globals are assigned one by one; an
  exception ends the assignments where it is raised.
\<close>

definition reload_config :: "error + json \<Rightarrow> state \<Rightarrow> reload_response \<times> state" where
  "reload_config loaded st =
     (case loaded of
        Inl e \<Rightarrow> (ReloadError e, st)
      | Inr cfg \<Rightarrow>
     let st1 = st\<lparr>config := cfg\<rparr> in
     (case py_get cfg (ascii ''debug'') (JBool False) of
        Inl e \<Rightarrow> (ReloadError e, st1)
      | Inr debug \<Rightarrow>
     let st2 = st1\<lparr>DEBUG := debug\<rparr> in
     (case py_get cfg (ascii ''anyrouter_url'') (JStr []) of
        Inl e \<Rightarrow> (ReloadError e, st2)
      | Inr url \<Rightarrow>
     let st3 = st2\<lparr>ANYROUTER_URL := url\<rparr> in
     (case py_get cfg (ascii ''user_agent'') (JStr []) of
        Inl e \<Rightarrow> (ReloadError e, st3)
      | Inr ua \<Rightarrow>
     let st4 = st3\<lparr>FIXED_UA := ua\<rparr> in
     (case py_get cfg (ascii ''api_keys'') (JList []) of
        Inl e \<Rightarrow> (ReloadError e, st4)
      | Inr keys \<Rightarrow>
     let st5 = st4\<lparr>API_KEYS := keys\<rparr> in
     (case make_key_cycle keys of
        Inl e \<Rightarrow> (ReloadError e, st5)
      | Inr kc \<Rightarrow>
     let st6 = st5\<lparr>key_cycle := kc, log_debug := truthy debug\<rparr> in
     (case py_len keys of
        Inl e \<Rightarrow> (ReloadError e, st6)
      | Inr n \<Rightarrow> (ReloadOk n, st6))))))))"

section \<open>The relay\<close>

type_synonym bytes = "nat list"

text \<open>\<^verbatim>\<open>pat in bs\<close> on bytes: \<open>pat\<close> occurs in \<open>bs\<close> as a contiguous run.\<close>

fun starts_with :: "bytes \<Rightarrow> bytes \<Rightarrow> bool" where
  "starts_with [] bs = True"
| "starts_with (p # ps) [] = False"
| "starts_with (p # ps) (b # bs) = (p = b \<and> starts_with ps bs)"

fun bytes_in :: "bytes \<Rightarrow> bytes \<Rightarrow> bool" where
  "bytes_in pat [] = (pat = [])"
| "bytes_in pat (b # bs) = (starts_with pat (b # bs) \<or> bytes_in pat bs)"

definition is_stream :: "bytes \<Rightarrow> bool" where
  "is_stream body_bytes \<longleftrightarrow>
     bytes_in (ascii (CHR 0x22 # ''stream'' @ CHR 0x22 # '': true'')) body_bytes \<or>
     bytes_in (ascii (CHR 0x22 # ''stream'' @ CHR 0x22 # '':true'')) body_bytes"

text \<open>
  What the upstream answers: its status code and the chunks \<^verbatim>\<open>aiter_bytes()\<close> yields;
  the buffered \<^verbatim>\<open>resp.content\<close> is their concatenation. A call that ends in a transport
  exception has no answer and is not modelled.
\<close>

record upstream =
  up_status :: nat
  up_chunks :: "bytes list"

text \<open>The chunks the generator \<^verbatim>\<open>stream()\<close> yields.\<close>

definition stream :: "upstream \<Rightarrow> bytes list" where
  "stream resp = (if up_status resp \<noteq> 200 then [concat (up_chunks resp)] else up_chunks resp)"

text \<open>The \<^verbatim>\<open>StreamingResponse\<close> the caller gets: status, media type if one is set, chunks.\<close>

record reply =
  status_code :: nat
  media_type :: "pystr option"
  body_chunks :: "bytes list"

definition relay :: "bytes \<Rightarrow> upstream \<Rightarrow> reply" where
  "relay body_bytes resp =
     (if is_stream body_bytes
      then \<lparr>status_code = 200, media_type = Some (ascii ''text/event-stream''),
            body_chunks = stream resp\<rparr>
      else \<lparr>status_code = up_status resp, media_type = None,
            body_chunks = [concat (up_chunks resp)]\<rparr>)"

subsection \<open>Serialising the body\<close>

text \<open>\<^verbatim>\<open>json.dumps(body)\<close> with its defaults: ASCII only, separators \<^verbatim>\<open>", "\<close> and \<^verbatim>\<open>": "\<close>.\<close>

fun digits :: "nat \<Rightarrow> pystr" where
  "digits n = (if n < 10 then [48 + n] else digits (n div 10) @ [48 + n mod 10])"

declare digits.simps [simp del]

definition int_repr :: "int \<Rightarrow> pystr" where
  "int_repr i = (if i < 0 then 45 # digits (nat (- i)) else digits (nat i))"

definition hexdigit :: "nat \<Rightarrow> nat" where
  "hexdigit d = (if d < 10 then 48 + d else 87 + d)"

definition hex4 :: "nat \<Rightarrow> pystr" where
  "hex4 n = [hexdigit (n div 4096 mod 16), hexdigit (n div 256 mod 16),
             hexdigit (n div 16 mod 16), hexdigit (n mod 16)]"

definition escape_char :: "nat \<Rightarrow> pystr" where
  "escape_char c =
     (if c = 34 then [92, 34]
      else if c = 92 then [92, 92]
      else if c = 8 then [92, 98]
      else if c = 12 then [92, 102]
      else if c = 10 then [92, 110]
      else if c = 13 then [92, 114]
      else if c = 9 then [92, 116]
      else if 32 \<le> c \<and> c \<le> 126 then [c]
      else if c < 65536 then [92, 117] @ hex4 c
      else [92, 117] @ hex4 (55296 + (c - 65536) div 1024 mod 1024) @
           [92, 117] @ hex4 (56320 + (c - 65536) mod 1024))"

definition quoted :: "pystr \<Rightarrow> pystr" where
  "quoted s = [34] @ concat (map escape_char s) @ [34]"

fun json_dumps :: "json \<Rightarrow> pystr" where
  "json_dumps JNull = ascii ''null''"
| "json_dumps (JBool b) = (if b then ascii ''true'' else ascii ''false'')"
| "json_dumps (JInt i) = int_repr i"
| "json_dumps (JFloat q r) = r"
| "json_dumps (JStr s) = quoted s"
| "json_dumps (JList xs) = ascii ''['' @ join (ascii '', '') (map json_dumps xs) @ ascii '']''"
| "json_dumps (JDict d) =
     ascii ''{'' @
     join (ascii '', '') (map (\<lambda>p. quoted (fst p) @ ascii '': '' @ json_dumps (snd p)) d) @
     ascii ''}''"

text \<open>\<^verbatim>\<open>s.encode()\<close>: UTF-8; a surrogate code point cannot be encoded.\<close>

definition utf8 :: "nat \<Rightarrow> error + bytes" where
  "utf8 c =
     (if c < 128 then Inr [c]
      else if c < 2048 then Inr [192 + c div 64, 128 + c mod 64]
      else if 55296 \<le> c \<and> c < 57344 then Inl UnicodeError
      else if c < 65536 then Inr [224 + c div 4096, 128 + c div 64 mod 64, 128 + c mod 64]
      else Inr [240 + c div 262144, 128 + c div 4096 mod 64, 128 + c div 64 mod 64,
                128 + c mod 64])"

fun encode :: "pystr \<Rightarrow> error + bytes" where
  "encode [] = Inr []"
| "encode (c # cs) = andthen (utf8 c) (\<lambda>b. andthen (encode cs) (\<lambda>bs. Inr (b @ bs)))"

text \<open>
  The body \<^verbatim>\<open>proxy\<close> forwards: \<open>loads\<close> is \<^verbatim>\<open>json.loads\<close>, whose JSONDecodeError is
  caught (the bytes go through as they are); any other exception ends the request.
\<close>

definition outbound_body ::
  "(bytes \<Rightarrow> error + json) \<Rightarrow> (json \<Rightarrow> pystr) \<Rightarrow> pystr \<Rightarrow> bytes \<Rightarrow> error + bytes" where
  "outbound_body loads fmt method body_bytes =
     (if method = ascii ''POST'' \<and> body_bytes \<noteq> [] then
        (case loads body_bytes of
           Inl e \<Rightarrow> if e = JSONDecodeError then Inr body_bytes else Inl e
         | Inr body \<Rightarrow> andthen (transform_body fmt body) (\<lambda>body'. encode (json_dumps body')))
      else Inr body_bytes)"

section \<open>Auxiliary definitions and example inputs\<close>

text \<open>
  The rotation's invariant for a pool \<open>ks\<close>: the next key is \<open>ks ! p\<close>, either on the
  first pass (the first \<open>p\<close> keys are saved) or on a later one.
\<close>

definition cycle_at :: "json list \<Rightarrow> cycle \<Rightarrow> nat \<Rightarrow> bool" where
  "cycle_at ks c p \<longleftrightarrow>
     p < length ks \<and>
     (c = \<lparr>pending = drop p ks, saved = take p ks, index = 0\<rparr> \<or>
      c = \<lparr>pending = [], saved = ks, index = p\<rparr>)"

definition st0 :: state where
  "st0 =
     \<lparr>config = JDict [], DEBUG = JBool False, ANYROUTER_URL = JStr (ascii ''https://up''),
      FIXED_UA = JStr (ascii ''ua''),
      API_KEYS = JList [JStr (ascii ''k1''), JStr (ascii ''k2'')],
      key_cycle = Some \<lparr>pending = [JStr (ascii ''k1''), JStr (ascii ''k2'')], saved = [],
                        index = 0\<rparr>,
      log_debug = False\<rparr>"

definition bad_config :: json where
  "bad_config = JDict [(ascii ''api_keys'', JNull)]"

definition good_config :: json where
  "good_config = JDict [(ascii ''api_keys'', JList [JStr (ascii ''k3'')])]"

definition rate_limited :: upstream where
  "rate_limited =
     \<lparr>up_status = 429,
      up_chunks = [ascii (''{'' @ CHR 0x22 # ''error'' @ CHR 0x22 # '':''),
                   ascii (CHR 0x22 # ''rate limited'' @ CHR 0x22 # ''}'')]\<rparr>"

text \<open>A message with a role and a content, and nothing else.\<close>

definition turn :: "pystr \<Rightarrow> json \<Rightarrow> json" where
  "turn r c = JDict [(ascii ''role'', JStr r), (ascii ''content'', c)]"

text \<open>
  What the first loop looks for: a message whose role is \<^verbatim>\<open>"user"\<close>; the messages before
  the first one are objects with another role, or with none.
\<close>

definition user_turn :: "(pystr \<times> json) list \<Rightarrow> bool" where
  "user_turn d \<longleftrightarrow> dict_get d (ascii ''role'') JNull = JStr (ascii ''user'')"

definition non_user :: "json \<Rightarrow> bool" where
  "non_user m =
     (case m of
        JDict d \<Rightarrow> dict_get d (ascii ''role'') JNull \<noteq> JStr (ascii ''user'')
      | _ \<Rightarrow> False)"

text \<open>The body \<open>bd\<close> with no system prompt of the caller's and with the messages \<open>ms\<close>.\<close>

definition without_system :: "(pystr \<times> json) list \<Rightarrow> json list \<Rightarrow> json" where
  "without_system bd ms =
     JDict (dict_set (dict_set bd (ascii ''system'') JNull) (ascii ''messages'') (JList ms))"

text \<open>
  A block that is an object carries the annotation when it has the key
  \<^verbatim>\<open>cache_control\<close>; an element that is no object has no keys. A message is annotated when
  its content is not a plain string and every block of a list content is annotated.
\<close>

definition block_annotated :: "json \<Rightarrow> bool" where
  "block_annotated b =
     (case b of JDict bd \<Rightarrow> dict_has bd (ascii ''cache_control'') | _ \<Rightarrow> True)"

definition msg_annotated :: "json \<Rightarrow> bool" where
  "msg_annotated m =
     (case m of
        JDict d \<Rightarrow>
          (case dict_get d (ascii ''content'') (JStr []) of
             JStr s \<Rightarrow> False
           | JList bs \<Rightarrow> list_all block_annotated bs
           | _ \<Rightarrow> True)
      | _ \<Rightarrow> False)"

text \<open>
  A block with blank text: an object whose text (the empty string if it has none) is a
  string of white space only, or an element that is no object.
\<close>

definition blank_block :: "json \<Rightarrow> bool" where
  "blank_block b =
     (case b of
        JDict bd \<Rightarrow>
          (case dict_get bd (ascii ''text'') (JStr []) of JStr t \<Rightarrow> strip t = [] | _ \<Rightarrow> False)
      | _ \<Rightarrow> True)"

definition assistant_turn :: "(pystr \<times> json) list \<Rightarrow> bool" where
  "assistant_turn d \<longleftrightarrow> dict_get d (ascii ''role'') JNull = JStr (ascii ''assistant'')"

text \<open>
  The roles of a message list, as \<^verbatim>\<open>m["role"]\<close> reads them. Two neighbours share a role
  when \<^verbatim>\<open>==\<close> holds of their roles; a message without a role counts as sharing.
\<close>

definition role_of :: "json \<Rightarrow> error + json" where
  "role_of m = py_item m (ascii ''role'')"

definition same_role :: "error + json \<Rightarrow> error + json \<Rightarrow> bool" where
  "same_role a b = (case (a, b) of (Inr r1, Inr r2) \<Rightarrow> py_eq r1 r2 | _ \<Rightarrow> True)"

fun roles_differ :: "(error + json) list \<Rightarrow> bool" where
  "roles_differ (a # b # rs) = (\<not> same_role a b \<and> roles_differ (b # rs))"
| "roles_differ rs = True"

subsection \<open>Request bodies of the examples\<close>

text \<open>\<^verbatim>\<open>[{"type": "text", "text": null}]\<close> as the system prompt.\<close>

definition null_text_system :: json where
  "null_text_system =
     JList [JDict [(ascii ''type'', JStr (ascii ''text'')), (ascii ''text'', JNull)]]"

text \<open>Two user messages, the first with an empty block list.\<close>

definition empty_blocks_body :: json where
  "empty_blocks_body =
     JDict [(ascii ''messages'',
             JList [turn (ascii ''user'') (JList []), turn (ascii ''user'') (JStr (ascii ''x''))])]"

text \<open>Two messages, the first without a role.\<close>

definition no_role_body :: json where
  "no_role_body =
     JDict [(ascii ''messages'',
             JList [JDict [(ascii ''content'', JStr (ascii ''a''))],
                    turn (ascii ''user'') (JStr (ascii ''b''))])]"

text \<open>An assistant message whose only block has the text \<^verbatim>\<open>null\<close>.\<close>

definition null_text_body :: json where
  "null_text_body =
     JDict [(ascii ''messages'',
             JList [turn (ascii ''assistant'')
                      (JList [JDict [(ascii ''type'', JStr (ascii ''text'')),
                                     (ascii ''text'', JNull)]])])]"

text \<open>Two assistant messages in a row, each a tool call followed by a text block.\<close>

definition tool_then_text :: "pystr \<Rightarrow> json" where
  "tool_then_text t =
     JList [JDict [(ascii ''type'', JStr (ascii ''tool_use'')), (ascii ''name'', JStr (ascii ''f''))],
            JDict [(ascii ''type'', JStr (ascii ''text'')), (ascii ''text'', JStr t)]]"

definition two_assistants_body :: json where
  "two_assistants_body =
     JDict [(ascii ''messages'',
             JList [turn (ascii ''assistant'') (tool_then_text (ascii ''hello'')),
                    turn (ascii ''assistant'') (tool_then_text (ascii ''hi''))])]"

text \<open>A system prompt, and a first user message with an empty block list.\<close>

definition empty_user_body :: json where
  "empty_user_body =
     JDict [(ascii ''system'', JStr (ascii ''Be terse.'')),
            (ascii ''messages'',
             JList [turn (ascii ''user'') (JList []),
                    turn (ascii ''assistant'') (JStr (ascii ''ok'')),
                    turn (ascii ''user'') (JStr (ascii ''hi''))])]"

text \<open>The specification's scenario \<^verbatim>\<open>{"system": "Be terse.", "messages": [user "hi"]}\<close>,
  the same with the content as a block list, and one with no user message.\<close>

definition terse_body :: "(pystr \<times> json) list" where
  "terse_body =
     [(ascii ''system'', JStr (ascii ''Be terse.'')),
      (ascii ''messages'', JList [turn (ascii ''user'') (JStr (ascii ''hi''))])]"

definition terse_blocks_body :: "(pystr \<times> json) list" where
  "terse_blocks_body =
     [(ascii ''system'', JStr (ascii ''Be terse.'')),
      (ascii ''messages'',
       JList [turn (ascii ''user'')
                (JList [JDict [(ascii ''type'', JStr (ascii ''text'')),
                               (ascii ''text'', JStr (ascii ''hi''))]])])]"

definition terse_no_user_body :: "(pystr \<times> json) list" where
  "terse_no_user_body =
     [(ascii ''system'', JStr (ascii ''Be terse.'')),
      (ascii ''messages'', JList [turn (ascii ''assistant'') (JStr (ascii ''ok''))])]"

text \<open>A user message of two blocks, the first already annotated, and an assistant
  message with a plain string.\<close>

definition kept_annotation :: "(pystr \<times> json) list" where
  "kept_annotation =
     [(ascii ''type'', JStr (ascii ''text'')), (ascii ''text'', JStr (ascii ''x'')),
      (ascii ''cache_control'', JDict [(ascii ''type'', JStr (ascii ''persistent''))])]"

definition no_annotation :: "(pystr \<times> json) list" where
  "no_annotation = [(ascii ''type'', JStr (ascii ''text'')), (ascii ''text'', JStr (ascii ''y''))]"

definition annotated_body :: json where
  "annotated_body =
     JDict [(ascii ''messages'',
             JList [turn (ascii ''user'') (JList [JDict kept_annotation, JDict no_annotation]),
                    turn (ascii ''assistant'') (JStr (ascii ''ok''))])]"

text \<open>The specification's scenario \<^verbatim>\<open>[user "a", assistant "", assistant "b", assistant "c"]\<close>.\<close>

definition scenario_turns :: "json list" where
  "scenario_turns =
     [turn (ascii ''user'') (JStr (ascii ''a'')), turn (ascii ''assistant'') (JStr []),
      turn (ascii ''assistant'') (JStr (ascii ''b'')),
      turn (ascii ''assistant'') (JStr (ascii ''c''))]"

text \<open>A body that switches streaming off and has the flag set in a nested object, and
  what \<^verbatim>\<open>transform_body\<close> makes of it.\<close>

definition nested_stream_body :: json where
  "nested_stream_body =
     JDict [(ascii ''stream'', JBool False), (ascii ''messages'', JList []),
            (ascii ''metadata'', JDict [(ascii ''stream'', JBool True)])]"

definition nested_stream_out :: json where
  "nested_stream_out =
     JDict [(ascii ''stream'', JBool False), (ascii ''messages'', JList []),
            (ascii ''metadata'', JDict [(ascii ''stream'', JBool True)]),
            (ascii ''system'', FIXED_SYSTEM), (ascii ''max_tokens'', JInt 32000),
            (ascii ''temperature'', JInt 1)]"

section \<open>Evaluation\<close>

lemma andthen_weak_cong [cong]: "r = r' \<Longrightarrow> andthen r f = andthen r' f"
  by simp

lemma andthen_simps [simp]:
  "andthen (Inl e) f = Inl e"
  "andthen (Inr v) f = f v"
  by (simp_all add: andthen_def)

lemma ascii_inject [simp]: "ascii s = ascii t \<longleftrightarrow> s = t"
  unfolding ascii_def by (simp add: inj_map_eq_map inj_on_def)

lemmas eval =
  ascii_def py_get_def py_item_def py_first_def py_iter_def py_setitem_def py_setdefault_def
  py_len_def py_format_def dict_get_def dict_has_def setdefault_def truthy_def
  isspace_def strip_def text_block_def ephemeral_def FIXED_SYSTEM_def wrapper_def
  get_user_system_text_def inject_msg_def inject_body_def blank_assistant_def turn_text_def
  clean_step_def annotate_block_def annotate_msg_def transform_body_def
  new_cycle_def cycle_next_def get_next_key_def make_key_cycle_def startup_def reload_config_def

section \<open>The relay: an upstream error on the streaming path\<close>

text \<open>
  Claim C6. On the streaming path (the byte scan found the flag), when the upstream's
  status is not 200 the caller gets status 200, the event-stream media type and exactly
  one chunk: the concatenation of everything the upstream sent. Every non-success
  status differs from 200, so this covers each of them; for the 429 answer
  \<^verbatim>\<open>{"error":"rate limited"}\<close> see the witness, where the body arrives in two pieces.
\<close>

theorem stream_error_single_chunk:
  "is_stream body_bytes \<Longrightarrow> up_status resp \<noteq> 200 \<Longrightarrow>
   relay body_bytes resp =
     \<lparr>status_code = 200, media_type = Some (ascii ''text/event-stream''),
      body_chunks = [concat (up_chunks resp)]\<rparr>"
  by (simp add: relay_def stream_def)

theorem stream_error_single_chunk_witness:
  \<open>is_stream (ascii ''{"stream": true}'') \<and>
   up_status rate_limited \<noteq> 200 \<and>
   relay (ascii ''{"stream": true}'') rate_limited =
     \<lparr>status_code = 200, media_type = Some (ascii ''text/event-stream''),
      body_chunks = [ascii ''{"error":"rate limited"}'']\<rparr>\<close>
proof -
  have s: \<open>is_stream (ascii ''{"stream": true}'')\<close>
    by (simp add: is_stream_def ascii_def)
  have u: "up_status rate_limited \<noteq> 200"
    by (simp add: rate_limited_def)
  from stream_error_single_chunk [OF s u] s u show ?thesis
    by (simp add: rate_limited_def ascii_def)
qed

section \<open>The key rotation is round robin\<close>

lemma cycle_next_at:
  assumes "cycle_at ks c p"
  shows "\<exists>c'. cycle_next c = Inr (ks ! p, c') \<and> cycle_at ks c' (Suc p mod length ks)"
proof -
  from assms have p: "p < length ks" by (simp add: cycle_at_def)
  from assms consider
      (first) "c = \<lparr>pending = drop p ks, saved = take p ks, index = 0\<rparr>"
    | (later) "c = \<lparr>pending = [], saved = ks, index = p\<rparr>"
    by (auto simp: cycle_at_def)
  then show ?thesis
  proof cases
    case first
    from p have d: "drop p ks = ks ! p # drop (Suc p) ks"
      by (simp add: Cons_nth_drop_Suc)
    from p have t: "take p ks @ [ks ! p] = take (Suc p) ks"
      by (simp add: take_Suc_conv_app_nth)
    show ?thesis
    proof (cases "Suc p = length ks")
      case True
      then have "ks \<noteq> []" by auto
      with True first d t p show ?thesis
        by (simp add: cycle_next_def cycle_at_def)
    next
      case False
      with p have "Suc p < length ks" by simp
      with first d t show ?thesis
        by (simp add: cycle_next_def cycle_at_def)
    qed
  next
    case later
    with p show ?thesis
      by (auto simp: cycle_next_def cycle_at_def mod_Suc)
  qed
qed

lemma next_keys_at:
  "key_cycle st = Some c \<Longrightarrow> cycle_at ks c p \<Longrightarrow>
   \<exists>st'. next_keys n st = Inr (map (\<lambda>j. ks ! ((p + j) mod length ks)) [0..<n], st')"
proof (induction n arbitrary: st c p)
  case 0
  then show ?case by simp
next
  case (Suc n)
  from Suc.prems(2) have p: "p < length ks" by (simp add: cycle_at_def)
  from cycle_next_at [OF Suc.prems(2)] obtain c'
    where c': "cycle_next c = Inr (ks ! p, c')" "cycle_at ks c' (Suc p mod length ks)"
    by blast
  let ?st = "st\<lparr>key_cycle := Some c'\<rparr>"
  have g: "get_next_key st = Inr (ks ! p, ?st)"
    using Suc.prems(1) c'(1) by (simp add: get_next_key_def)
  have "key_cycle ?st = Some c'" by simp
  from Suc.IH [OF this c'(2)] obtain st'
    where r: "next_keys n ?st =
                Inr (map (\<lambda>j. ks ! ((Suc p mod length ks + j) mod length ks)) [0..<n], st')"
    by blast
  have m: "map (\<lambda>j. ks ! ((p + j) mod length ks)) [0..<Suc n] =
        ks ! p # map (\<lambda>j. ks ! ((Suc p mod length ks + j) mod length ks)) [0..<n]"
  proof -
    have "[0..<Suc n] = 0 # map Suc [0..<n]"
      by (simp add: upt_conv_Cons map_Suc_upt del: upt_Suc)
    moreover have "\<And>j. (Suc p mod length ks + j) mod length ks = (p + Suc j) mod length ks"
      by (simp add: mod_add_left_eq)
    ultimately show ?thesis using p by (simp add: comp_def del: upt_Suc)
  qed
  show ?case
    unfolding m using g r by simp
qed

lemma cycle_at_fresh: "ks \<noteq> [] \<Longrightarrow> cycle_at ks \<lparr>pending = ks, saved = [], index = 0\<rparr> 0"
  by (simp add: cycle_at_def)

lemma next_keys_none:
  "key_cycle st = None \<Longrightarrow> next_keys n st = Inr (replicate n (JStr []), st)"
  by (induction n) (simp_all add: get_next_key_def)

text \<open>
  Claim C5. Let the rotator be the one the module builds from the pool \<open>ks\<close>
  (\<^verbatim>\<open>itertools.cycle(API_KEYS) if API_KEYS else None\<close>). If the pool has \<open>N \<ge> 1\<close> keys,
  \<open>N\<close> calls of \<^verbatim>\<open>get_next_key\<close> in a row return the pool in its order, each key once,
  and call \<open>N + 1\<close> returns the first key again. If the pool is empty, every call returns
  the empty string, raises nothing and leaves the state as it is.
\<close>

theorem get_next_key_round_robin:
  assumes "make_key_cycle (JList ks) = Inr kc" and "key_cycle st = kc"
  shows "(ks \<noteq> [] \<longrightarrow>
            (\<exists>st'. next_keys (length ks) st = Inr (ks, st')) \<and>
            (\<exists>st'. next_keys (Suc (length ks)) st = Inr (ks @ [hd ks], st'))) \<and>
         (ks = [] \<longrightarrow> (\<forall>n. next_keys n st = Inr (replicate n (JStr []), st)))"
proof (intro conjI impI allI)
  assume ne: "ks \<noteq> []"
  with assms have kc: "key_cycle st = Some \<lparr>pending = ks, saved = [], index = 0\<rparr>"
    by (auto simp: make_key_cycle_def truthy_def new_cycle_def py_iter_def)
  have a: "map (\<lambda>j. ks ! ((0 + j) mod length ks)) [0..<length ks] = ks"
  proof -
    have "map (\<lambda>j. ks ! ((0 + j) mod length ks)) [0..<length ks] =
          map (\<lambda>j. ks ! j) [0..<length ks]"
      by (rule map_cong) simp_all
    then show ?thesis by (simp add: map_nth)
  qed
  from ne have b: "map (\<lambda>j. ks ! ((0 + j) mod length ks)) [0..<Suc (length ks)] = ks @ [hd ks]"
    using a by (simp add: hd_conv_nth del: upt_Suc add: upt_Suc_append)
  from next_keys_at [OF kc cycle_at_fresh [OF ne], of "length ks"] a
  show "\<exists>st'. next_keys (length ks) st = Inr (ks, st')" by simp
  from next_keys_at [OF kc cycle_at_fresh [OF ne], of "Suc (length ks)"] b
  show "\<exists>st'. next_keys (Suc (length ks)) st = Inr (ks @ [hd ks], st')" by simp
next
  fix n assume "ks = []"
  with assms have "key_cycle st = None"
    by (auto simp: make_key_cycle_def truthy_def)
  then show "next_keys n st = Inr (replicate n (JStr []), st)"
    by (rule next_keys_none)
qed

theorem get_next_key_round_robin_witness:
  "make_key_cycle (JList [JStr (ascii ''k1''), JStr (ascii ''k2'')]) = Inr (key_cycle st0) \<and>
   (\<exists>st'. next_keys 2 st0 = Inr ([JStr (ascii ''k1''), JStr (ascii ''k2'')], st')) \<and>
   (\<exists>st'. next_keys 3 st0 =
            Inr ([JStr (ascii ''k1''), JStr (ascii ''k2''), JStr (ascii ''k1'')], st')) \<and>
   make_key_cycle (JList []) = Inr (key_cycle (st0\<lparr>key_cycle := None\<rparr>)) \<and>
   next_keys 5 (st0\<lparr>key_cycle := None\<rparr>) =
     Inr (replicate 5 (JStr []), st0\<lparr>key_cycle := None\<rparr>)"
proof -
  have h: "make_key_cycle (JList [JStr (ascii ''k1''), JStr (ascii ''k2'')]) = Inr (key_cycle st0)"
    by (simp add: make_key_cycle_def truthy_def new_cycle_def py_iter_def st0_def)
  have e: "make_key_cycle (JList []) = Inr (key_cycle (st0\<lparr>key_cycle := None\<rparr>))"
    by (simp add: make_key_cycle_def truthy_def)
  from get_next_key_round_robin [OF h refl] get_next_key_round_robin [OF e refl] h e
  show ?thesis
    by (simp add: numeral_2_eq_2 numeral_3_eq_3)
qed

section \<open>Reloading the configuration\<close>

text \<open>
  Claim C7, as amended. If \<^verbatim>\<open>load_config()\<close> raises (the file is unreadable or is not
  JSON), \<^verbatim>\<open>reload_config\<close> answers with the failure and no global changes. If it answers
  with success, the globals are the ones a start of the module with the new
  configuration gives, whatever they were before; the count returned is the length of
  the new \<^verbatim>\<open>API_KEYS\<close>, and for a list of keys the rotator is a new cycle at the start of
  that list (none for an empty list).
\<close>

theorem reload_config_load_failure_or_success:
  "(loaded = Inl e \<longrightarrow> reload_config loaded st = (ReloadError e, st)) \<and>
   (reload_config loaded st = (ReloadOk n, st') \<longrightarrow>
      (\<exists>cfg. loaded = Inr cfg \<and> startup cfg = Inr st' \<and> py_len (API_KEYS st') = Inr n) \<and>
      (\<forall>ks. API_KEYS st' = JList ks \<longrightarrow>
         n = length ks \<and>
         key_cycle st' =
           (if ks = [] then None else Some \<lparr>pending = ks, saved = [], index = 0\<rparr>)))"
proof (intro conjI impI)
  assume "loaded = Inl e"
  then show "reload_config loaded st = (ReloadError e, st)"
    by (simp add: reload_config_def)
next
  assume ok: "reload_config loaded st = (ReloadOk n, st')"
  then obtain cfg where l: "loaded = Inr cfg"
    by (cases loaded) (auto simp: reload_config_def)
  from ok l obtain d where d: "cfg = JDict d"
    by (cases cfg) (auto simp: reload_config_def py_get_def Let_def)
  from ok l d obtain kc where
    kc: "make_key_cycle (dict_get d (ascii ''api_keys'') (JList [])) = Inr kc"
    by (cases "make_key_cycle (dict_get d (ascii ''api_keys'') (JList []))")
       (auto simp: reload_config_def py_get_def Let_def)
  from ok l d kc obtain m where
    m: "py_len (dict_get d (ascii ''api_keys'') (JList [])) = Inr m"
    by (cases "py_len (dict_get d (ascii ''api_keys'') (JList []))")
       (auto simp: reload_config_def py_get_def Let_def)
  from ok l d kc m have st': "st' =
      \<lparr>config = cfg, DEBUG = dict_get d (ascii ''debug'') (JBool False),
       ANYROUTER_URL = dict_get d (ascii ''anyrouter_url'') (JStr []),
       FIXED_UA = dict_get d (ascii ''user_agent'') (JStr []),
       API_KEYS = dict_get d (ascii ''api_keys'') (JList []),
       key_cycle = kc,
       log_debug = truthy (dict_get d (ascii ''debug'') (JBool False))\<rparr>" and n: "n = m"
    by (cases st; simp add: reload_config_def py_get_def Let_def)+
  show "(\<exists>cfg. loaded = Inr cfg \<and> startup cfg = Inr st' \<and> py_len (API_KEYS st') = Inr n)"
    using l d kc m st' n by (simp add: startup_def py_get_def)
  show "\<forall>ks. API_KEYS st' = JList ks \<longrightarrow>
         n = length ks \<and>
         key_cycle st' =
           (if ks = [] then None else Some \<lparr>pending = ks, saved = [], index = 0\<rparr>)"
    using kc m st' n
    by (auto simp: make_key_cycle_def truthy_def new_cycle_def py_iter_def py_len_def)
qed

theorem reload_config_load_failure_or_success_witness:
  "reload_config (Inl OSError) st0 = (ReloadError OSError, st0) \<and>
   (\<exists>st'. reload_config (Inr good_config) st0 = (ReloadOk 1, st') \<and>
          startup good_config = Inr st' \<and>
          key_cycle st' = Some \<lparr>pending = [JStr (ascii ''k3'')], saved = [], index = 0\<rparr>)"
proof -
  have r: "reload_config (Inr good_config) st0 =
             (ReloadOk 1, snd (reload_config (Inr good_config) st0))"
    by (simp add: good_config_def st0_def eval)
  have k: "API_KEYS (snd (reload_config (Inr good_config) st0)) = JList [JStr (ascii ''k3'')]"
    by (simp add: good_config_def st0_def eval)
  from reload_config_load_failure_or_success [of "Inl OSError" OSError st0]
    reload_config_load_failure_or_success
      [of "Inr good_config" _ st0 1, THEN conjunct2, rule_format, OF r] k r
  show ?thesis by auto
qed

text \<open>
  The claim as the specification states it fails: with \<^verbatim>\<open>{"api_keys": null}\<close> in the
  file the reload answers with a failure (\<^verbatim>\<open>len(None)\<close> raises TypeError), yet by then
  the rotator of two keys is gone and the upstream URL is the empty default.
\<close>

theorem reload_config_failure_changes_state:
  "fst (reload_config (Inr bad_config) st0) = ReloadError TypeError \<and>
   key_cycle (snd (reload_config (Inr bad_config) st0)) = None \<and>
   key_cycle st0 \<noteq> None \<and>
   ANYROUTER_URL (snd (reload_config (Inr bad_config) st0)) = JStr [] \<and>
   ANYROUTER_URL st0 \<noteq> JStr []"
  by (simp add: bad_config_def st0_def eval)

end
